theory Spec2Isabelle
  imports Complex_Main "HOL-Library.Word" "HOL-Library.AList" "HOL-Library.Sublist"
begin

section \<open>Python values used by \<open>app.py\<close>\<close>

text \<open>
  Exceptions are values. Every constructor stands for a subclass of Python's
  \<open>Exception\<close>; \<open>LibraryError\<close> carries the message of an exception raised
  inside one of the third-party libraries (EasyOCR, the Gemini SDK, \<open>binascii\<close>).
\<close>

datatype py_error =
    AttributeError
  | IndexError
  | FileNotFoundError
  | TypeError
  | LibraryError string

text \<open>
  A Python \<open>float\<close>. Only comparisons are applied to floats by the program, and
  IEEE comparison is exact, so a finite float is represented by the real number
  it denotes (\<open>-0.0\<close> and \<open>0.0\<close> compare equal and are both \<open>Finite 0\<close>).
  Every comparison with \<open>NaN\<close> is false.
\<close>

datatype pyfloat = NaN | NegInf | Finite real | PosInf

fun float_ge :: "pyfloat \<Rightarrow> pyfloat \<Rightarrow> bool" where
  "float_ge NaN b = False"
| "float_ge a NaN = False"
| "float_ge PosInf b = True"
| "float_ge a NegInf = True"
| "float_ge NegInf b = False"
| "float_ge a PosInf = False"
| "float_ge (Finite x) (Finite y) = (y \<le> x)"

definition float_le :: "pyfloat \<Rightarrow> pyfloat \<Rightarrow> bool" where
  "float_le a b = float_ge b a"

type_synonym byte = "8 word"

text \<open>The value of a parsed JSON document, as \<open>request.json\<close> holds it. A
  \<open>JObject\<close> carries the items of the parsed \<open>dict\<close> in insertion order.\<close>

datatype json =
    JNull
  | JBool bool
  | JInt int
  | JFloat pyfloat
  | JString string
  | JArray "json list"
  | JObject "(string \<times> json) list"

text \<open>Python truthiness, as used by \<open>if not data_url\<close>.\<close>

fun truthy :: "json \<Rightarrow> bool" where
  "truthy JNull = False"
| "truthy (JBool b) = b"
| "truthy (JInt n) = (n \<noteq> 0)"
| "truthy (JFloat f) = (f \<noteq> Finite 0)"
| "truthy (JString s) = (s \<noteq> [])"
| "truthy (JArray xs) = (xs \<noteq> [])"
| "truthy (JObject kvs) = (kvs \<noteq> [])"

text \<open>\<open>d.get(key)\<close>: only a \<open>dict\<close> has the method; a missing key gives
  \<open>None\<close>.\<close>

fun json_get :: "json \<Rightarrow> string \<Rightarrow> py_error + json" where
  "json_get (JObject kvs) k = Inr (case map_of kvs k of None \<Rightarrow> JNull | Some v \<Rightarrow> v)"
| "json_get j k = Inl AttributeError"

text \<open>\<open>s.split(sep)\<close> for a one-character separator: the pieces between the
  separators, always at least one piece.\<close>

fun split_str :: "char \<Rightarrow> string \<Rightarrow> string list" where
  "split_str sep [] = [[]]"
| "split_str sep (c # cs) =
     (if c = sep then [] # split_str sep cs
      else (case split_str sep cs of
              [] \<Rightarrow> [[c]]
            | p # ps \<Rightarrow> (c # p) # ps))"

text \<open>\<open>x.split(',')\<close> on a JSON value: only \<open>str\<close> has the method.\<close>

fun json_split :: "json \<Rightarrow> py_error + string list" where
  "json_split (JString s) = Inr (split_str CHR '','' s)"
| "json_split j = Inl AttributeError"

text \<open>\<open>xs[i]\<close> for a non-negative index; out of range raises \<open>IndexError\<close>.\<close>

definition getitem :: "'a list \<Rightarrow> nat \<Rightarrow> py_error + 'a" where
  "getitem xs i = (if i < length xs then Inr (xs ! i) else Inl IndexError)"

text \<open>\<open>sep.join(xs)\<close>.\<close>

fun join_str :: "string \<Rightarrow> string list \<Rightarrow> string" where
  "join_str sep [] = []"
| "join_str sep [x] = x"
| "join_str sep (x # y # ys) = x @ sep @ join_str sep (y # ys)"

text \<open>\<open>os.path.join(a, b)\<close> on a POSIX system.\<close>

definition os_path_join :: "string \<Rightarrow> string \<Rightarrow> string" where
  "os_path_join a b =
     (if b \<noteq> [] \<and> hd b = CHR ''/'' then b
      else if a = [] \<or> last a = CHR ''/'' then a @ b
      else a @ ''/'' @ b)"

section \<open>Schemas built with \<open>pydantic.create_model\<close>\<close>

text \<open>
  A model class made by \<open>create_model(name, **field_definitions)\<close> is
  represented by its name and its field definitions in declaration order. A
  field definition is the pair \<open>(type, default)\<close> of the source, where the
  default \<open>...\<close> (Ellipsis) marks the field as required.
\<close>

datatype field_default = Required | NotRequired

datatype field_type = TStr | TList pyd_model
  and pyd_model = PydModel (model_name: string) (model_fields: "(string \<times> field_type \<times> field_default) list")

text \<open>
  What \<open>create_model\<close> does with a name it is given: it makes a field of it,
  or it makes a private attribute and no field, or it raises.
\<close>

datatype name_kind = FieldName | PrivateName | RejectedName py_error

text \<open>
  The names pydantic does not treat as plain field names: those with a leading
  underscore (private attributes, and the keyword arguments of \<open>create_model\<close>
  itself such as \<open>__base__\<close>) and those of its \<open>model_\<close> namespace (such as
  \<open>model_config\<close>). The empty name is put with them.
\<close>

definition reserved_name :: "string \<Rightarrow> bool" where
  "reserved_name n = (n = [] \<or> hd n = CHR ''_'' \<or> prefix ''model_'' n)"

section \<open>The world outside the handler\<close>

text \<open>An OCR result of EasyOCR: bounding box, text, confidence.\<close>

type_synonym bbox = "(int \<times> int) list"
type_synonym fragment = "bbox \<times> string \<times> pyfloat"

definition frag_text :: "fragment \<Rightarrow> string" where
  "frag_text f = fst (snd f)"

definition frag_conf :: "fragment \<Rightarrow> pyfloat" where
  "frag_conf f = snd (snd f)"

text \<open>The response object of the Gemini SDK, as far as the program reads it.\<close>

datatype part = Part (part_text: string)
datatype content = Content (parts: "part list")
datatype candidate = Candidate (content: content)
datatype gen_response = GenResponse (candidates: "candidate list")

text \<open>
  The third-party services are parameters of the model: base64 decoding, the OCR
  engine (languages and image bytes to fragments) and the hosted model (prompt
  and response schema to a response object, possibly \<open>None\<close>). Each may raise.
  What pydantic does with a reserved name depends on the name and on the
  version of the library, so it is a parameter too.
\<close>

record env =
  b64decode :: "string \<Rightarrow> py_error + byte list"
  readtext :: "string list \<Rightarrow> byte list \<Rightarrow> py_error + fragment list"
  generate_content :: "string \<Rightarrow> pyd_model \<Rightarrow> py_error + gen_response option"
  reserved_name_rule :: "string \<Rightarrow> name_kind"

text \<open>What the handler does to the outside, in order.\<close>

datatype event =
    FileWrite string "byte list"
  | FileRemove string
  | OcrCall "string list" string
  | GeminiCall string pyd_model

record world =
  files :: "string \<rightharpoonup> byte list"
  trace :: "event list"

definition emit :: "event \<Rightarrow> world \<Rightarrow> world" where
  "emit e w = w\<lparr>trace := trace w @ [e]\<rparr>"

text \<open>\<open>open(path, 'wb')\<close> followed by \<open>write(data)\<close>: the file is created or
  replaced. The upload directory exists, it is made when the module is loaded.\<close>

definition write_file :: "string \<Rightarrow> byte list \<Rightarrow> world \<Rightarrow> world" where
  "write_file path data w = emit (FileWrite path data) (w\<lparr>files := (files w)(path \<mapsto> data)\<rparr>)"

text \<open>\<open>os.remove(path)\<close>.\<close>

definition os_remove :: "string \<Rightarrow> world \<Rightarrow> (py_error + unit) \<times> world" where
  "os_remove path w =
     (case files w path of
        None \<Rightarrow> (Inl FileNotFoundError, w)
      | Some data \<Rightarrow> (Inr (), emit (FileRemove path) (w\<lparr>files := (files w)(path := None)\<rparr>)))"

section \<open>Text extraction\<close>

text \<open>The list comprehension of \<open>process_image\<close> (lines 31--33).\<close>

definition extracted_texts :: "fragment list \<Rightarrow> pyfloat \<Rightarrow> string list" where
  "extracted_texts results confidence_threshold =
     [text. (_, text, confidence) \<leftarrow> results, float_ge confidence confidence_threshold]"

definition process_image ::
  "env \<Rightarrow> string \<Rightarrow> string list \<Rightarrow> pyfloat \<Rightarrow> world \<Rightarrow> (py_error + string) \<times> world" where
  "process_image e image_path lang_list confidence_threshold w =
     (let w1 = emit (OcrCall lang_list image_path) w in
      case files w1 image_path of
        None \<Rightarrow> (Inl FileNotFoundError, w1)
      | Some image_bytes \<Rightarrow>
          (case readtext e lang_list image_bytes of
             Inl err \<Rightarrow> (Inl err, w1)
           | Inr results \<Rightarrow>
               (Inr (join_str '' '' (extracted_texts results confidence_threshold)), w1)))"

text \<open>The defaults of \<open>process_image\<close>. The literal \<open>0.7\<close> denotes the double
  nearest to seven tenths, which is \<open>3152519739159347 / 2 ^ 52\<close>.\<close>

definition default_lang_list :: "string list" where
  "default_lang_list = [''en'', ''te'']"

definition default_confidence_threshold :: pyfloat where
  "default_confidence_threshold = Finite (3152519739159347 / 4503599627370496)"

section \<open>Schema builder\<close>

text \<open>A name outside the reserved ones becomes a field.\<close>

definition name_kind_of :: "env \<Rightarrow> string \<Rightarrow> name_kind" where
  "name_kind_of e n = (if reserved_name n then reserved_name_rule e n else FieldName)"

fun first_rejected :: "env \<Rightarrow> (string \<times> field_type \<times> field_default) list \<Rightarrow> py_error option" where
  "first_rejected e [] = None"
| "first_rejected e ((n, d) # ds) =
     (case name_kind_of e n of
        RejectedName err \<Rightarrow> Some err
      | FieldName \<Rightarrow> first_rejected e ds
      | PrivateName \<Rightarrow> first_rejected e ds)"

text \<open>\<open>pydantic.create_model(name, **field_definitions)\<close>: it raises when a name
  is rejected; otherwise the class has a field for each definition whose name
  is a field name, in the order of the definitions.\<close>

definition create_model ::
  "env \<Rightarrow> string \<Rightarrow> (string \<times> field_type \<times> field_default) list \<Rightarrow> py_error + pyd_model" where
  "create_model e name field_definitions =
     (case first_rejected e field_definitions of
        Some err \<Rightarrow> Inl err
      | None \<Rightarrow>
          Inr (PydModel name (filter (\<lambda>(n, d). name_kind_of e n = FieldName) field_definitions)))"

text \<open>The dict comprehension \<open>{field: (str, ...) for field in field_names}\<close>
  stores the fields one after the other: a new key goes to the end, a key already
  present keeps its place and takes the new value.\<close>

definition create_dynamic_listing_model :: "env \<Rightarrow> string list \<Rightarrow> py_error + pyd_model" where
  "create_dynamic_listing_model e field_names =
     (let field_definitions =
            foldl (\<lambda>d field. AList.update field (TStr, Required) d) [] field_names
      in create_model e ''DynamicListingModel'' field_definitions)"

definition create_listings_container_model :: "env \<Rightarrow> pyd_model \<Rightarrow> py_error + pyd_model" where
  "create_listings_container_model e listing_model =
     create_model e ''DynamicListingsContainer'' [(''listings'', TList listing_model, Required)]"

section \<open>Generative query adapter\<close>

text \<open>The body of the \<open>try\<close> block of \<open>gemini_generate_response\<close>. Leaving the
  \<open>if\<close> without entering it falls off the end of the function, which returns
  \<open>None\<close>.\<close>

definition gemini_try_block :: "env \<Rightarrow> string \<Rightarrow> pyd_model \<Rightarrow> py_error + string option" where
  "gemini_try_block e prompt container_model =
     (case generate_content e prompt container_model of
        Inl err \<Rightarrow> Inl err
      | Inr None \<Rightarrow> Inr None
      | Inr (Some response) \<Rightarrow>
          if candidates response = [] then Inr None
          else (case getitem (candidates response) 0 of
                  Inl err \<Rightarrow> Inl err
                | Inr c \<Rightarrow>
                    if parts (content c) = [] then Inr None
                    else (case getitem (parts (content c)) 0 of
                            Inl err \<Rightarrow> Inl err
                          | Inr p \<Rightarrow> Inr (Some (part_text p)))))"

text \<open>\<open>except Exception as e: ... return None\<close> around that block.\<close>

definition gemini_generate_response ::
  "env \<Rightarrow> string \<Rightarrow> pyd_model \<Rightarrow> world \<Rightarrow> (py_error + string option) \<times> world" where
  "gemini_generate_response e prompt container_model w =
     (let w1 = emit (GeminiCall prompt container_model) w in
      case gemini_try_block e prompt container_model of
        Inl err \<Rightarrow> (Inr None, w1)
      | Inr r \<Rightarrow> (Inr r, w1))"

section \<open>Request orchestrator\<close>

datatype http_method = GET | POST

record request =
  req_method :: http_method
  req_json :: json

text \<open>A response: \<open>jsonify\<close> with its status code, or a rendered template.\<close>

datatype response = JsonResponse nat json | Template string

definition UPLOAD_FOLDER :: string where
  "UPLOAD_FOLDER = ''uploaded_images''"

definition captured_image_path :: string where
  "captured_image_path = os_path_join UPLOAD_FOLDER ''captured_image.jpg''"

definition system_message :: string where
  "system_message =
     ''Act as an agriculture expert. Provide all details about the product '' @
     ''including its uses, chemical composition, and benefits. '' @
     ''Here is the product information: ''"

definition listing_fields :: "string list" where
  "listing_fields = [''Product Name'', ''Description'', ''Usage Instructions'']"

definition json_of_optional :: "string option \<Rightarrow> json" where
  "json_of_optional r = (case r of None \<Rightarrow> JNull | Some s \<Rightarrow> JString s)"

text \<open>The handler \<open>index\<close>. An exception that nothing catches leaves the handler
  as \<open>Inl\<close>, with the world as it was when the exception was raised.\<close>

definition index :: "env \<Rightarrow> request \<Rightarrow> world \<Rightarrow> (py_error + response) \<times> world" where
  "index e req w =
     (if req_method req = POST then
        (case json_get (req_json req) ''image'' of
           Inl err \<Rightarrow> (Inl err, w)
         | Inr data_url \<Rightarrow>
             if \<not> truthy data_url then
               (Inr (JsonResponse 400 (JObject [(''error'', JString ''No image data provided'')])), w)
             else
               (case json_split data_url of
                  Inl err \<Rightarrow> (Inl err, w)
                | Inr pieces \<Rightarrow>
               (case getitem pieces 1 of
                  Inl err \<Rightarrow> (Inl err, w)
                | Inr payload \<Rightarrow>
               (case b64decode e payload of
                  Inl err \<Rightarrow> (Inl err, w)
                | Inr image_data \<Rightarrow>
               (let image_path = captured_image_path;
                    w1 = write_file image_path image_data w
                in case process_image e image_path default_lang_list default_confidence_threshold w1 of
                  (Inl err, w2) \<Rightarrow> (Inl err, w2)
                | (Inr extracted_text, w2) \<Rightarrow>
                    if extracted_text = [] then
                      (Inr (JsonResponse 400
                              (JObject [(''error'', JString ''No text extracted from the image'')])), w2)
                    else
                      (let fields = listing_fields
                       in case create_dynamic_listing_model e fields of
                            Inl err \<Rightarrow> (Inl err, w2)
                          | Inr listing_model \<Rightarrow>
                      (case create_listings_container_model e listing_model of
                            Inl err \<Rightarrow> (Inl err, w2)
                          | Inr container_model \<Rightarrow>
                      (let prompt = system_message @ extracted_text
                       in case gemini_generate_response e prompt container_model w2 of
                            (Inl err, w3) \<Rightarrow> (Inl err, w3)
                          | (Inr gemini_response, w3) \<Rightarrow>
                              (case os_remove image_path w3 of
                                 (Inl err, w4) \<Rightarrow> (Inl err, w4)
                               | (Inr u, w4) \<Rightarrow>
                                   (Inr (JsonResponse 200
                                           (JObject [(''extracted_text'', JString extracted_text),
                                                     (''gemini_response'', json_of_optional gemini_response)])),
                                    w4))))))))))
      else (Inr (Template ''index.html''), w))"

text \<open>The two schemas the handler builds from its fixed field list: none of its
  names is reserved.\<close>

definition listing_schema :: pyd_model where
  "listing_schema =
     PydModel ''DynamicListingModel''
       [(''Product Name'', TStr, Required), (''Description'', TStr, Required),
        (''Usage Instructions'', TStr, Required)]"

definition container_schema :: pyd_model where
  "container_schema =
     PydModel ''DynamicListingsContainer'' [(''listings'', TList listing_schema, Required)]"

section \<open>The extraction, as the specification words it\<close>

text \<open>The texts of the fragments whose confidence is at least the threshold, in
  the order of the OCR result; then the first text followed by a space and the
  next text, for each further text.\<close>

definition retained :: "fragment list \<Rightarrow> pyfloat \<Rightarrow> fragment list" where
  "retained F t = filter (\<lambda>f. float_ge (frag_conf f) t) F"

definition space_joined :: "string list \<Rightarrow> string" where
  "space_joined xs = (case xs of [] \<Rightarrow> [] | x # ys \<Rightarrow> x @ concat (map (\<lambda>y. CHR '' '' # y) ys))"

section \<open>The payload, as the specification words it\<close>

text \<open>Everything following the first comma of a string, and a string up to its
  first comma (the whole string when it has none).\<close>

definition after_first_comma :: "string \<Rightarrow> string" where
  "after_first_comma s = tl (dropWhile (\<lambda>c. c \<noteq> CHR '','') s)"

definition until_comma :: "string \<Rightarrow> string" where
  "until_comma s = takeWhile (\<lambda>c. c \<noteq> CHR '','') s"



section \<open>Observations on a world\<close>

text \<open>The calls of the generative adapter and the file writes recorded so far.\<close>

definition gemini_calls :: "world \<Rightarrow> (string \<times> pyd_model) list" where
  "gemini_calls w = [(p, m). GeminiCall p m \<leftarrow> trace w]"


section \<open>An environment for the examples\<close>

text \<open>
  The theorems below hold for every environment. The examples run the handler
  in one fixed environment of canned answers: the decoder knows the two
  payloads of the examples and answers as \<open>base64.b64decode\<close> does on them,
  the OCR engine reads three fragments from the image \<open>Hi\<close> and one faint
  fragment from any other image, and the hosted model answers with one
  candidate. Of the reserved names, \<open>model_config\<close> is rejected with a
  \<open>TypeError\<close> and a name with a leading underscore becomes a private
  attribute, as pydantic 2 does.
\<close>

definition example_fragments :: "fragment list" where
  "example_fragments =
     [([(0, 0), (40, 0), (40, 12), (0, 12)], ''NPK'', Finite (7 / 8)),
      ([(0, 20), (30, 20), (30, 32), (0, 32)], ''smudge'', Finite (1 / 4)),
      ([(50, 0), (120, 0), (120, 12), (50, 12)], ''Fertilizer'', Finite (3 / 4))]"

definition example_env :: env where
  "example_env =
     \<lparr>b64decode = (\<lambda>s. if s = ''SGk='' then Inr [72, 105]
                       else if s = ''AAAA'' then Inr [0, 0, 0]
                       else Inl (LibraryError ''binascii.Error'')),
      readtext = (\<lambda>langs image_bytes.
                    if image_bytes = [72, 105] then Inr example_fragments
                    else Inr [([], ''noise'', Finite (1 / 4))]),
      generate_content = (\<lambda>prompt schema.
                    Inr (Some (GenResponse [Candidate (Content [Part ''{}''])]))),
      reserved_name_rule = (\<lambda>n. if n = ''model_config'' then RejectedName TypeError
                                else if n \<noteq> [] \<and> hd n = CHR ''_'' then PrivateName
                                else FieldName)\<rparr>"

definition failing_env :: env where
  "failing_env = example_env\<lparr>generate_content := (\<lambda>prompt schema. Inl (LibraryError ''quota exceeded''))\<rparr>"

definition silent_env :: env where
  "silent_env = example_env\<lparr>generate_content := (\<lambda>prompt schema. Inr (Some (GenResponse [])))\<rparr>"

definition initial_world :: world where
  "initial_world = \<lparr>files = Map.empty, trace = []\<rparr>"

definition post_image :: "string \<Rightarrow> request" where
  "post_image s = \<lparr>req_method = POST, req_json = JObject [(''image'', JString s)]\<rparr>"

section \<open>Facts about the primitives and the handler\<close>

lemma extracted_texts_retained: "extracted_texts F t = map frag_text (retained F t)"
  by (induction F) (auto simp: extracted_texts_def retained_def frag_text_def frag_conf_def)

lemma join_str_space_joined: "join_str '' '' xs = space_joined xs"
  by (induction "'' ''" xs rule: join_str.induct) (auto simp: space_joined_def)

lemma float_ge_trans: "float_ge c b \<Longrightarrow> float_ge b a \<Longrightarrow> float_ge c a"
  by (cases c; cases b; cases a) auto

lemma process_image_ok:
  assumes "files w image_path = Some image_bytes"
    and "readtext e lang_list image_bytes = Inr F"
  shows "process_image e image_path lang_list t w =
           (Inr (join_str '' '' (extracted_texts F t)), emit (OcrCall lang_list image_path) w)"
  using assms by (simp add: process_image_def emit_def Let_def)

lemma split_str_no_sep: "sep \<notin> set s \<Longrightarrow> split_str sep s = [s]"
  by (induction s) auto

lemma split_str_first: "sep \<notin> set pre \<Longrightarrow> split_str sep (pre @ sep # rest) = pre # split_str sep rest"
  by (induction pre) auto

lemma split_str_hd: "\<exists>ps. split_str sep s = takeWhile (\<lambda>c. c \<noteq> sep) s # ps"
  by (induction s) auto

lemma getitem_second_piece:
  assumes "sep \<notin> set pre"
  shows "getitem (split_str sep (pre @ sep # rest)) (Suc 0) = Inr (takeWhile (\<lambda>c. c \<noteq> sep) rest)"
proof -
  obtain ps where "split_str sep rest = takeWhile (\<lambda>c. c \<noteq> sep) rest # ps"
    using split_str_hd by blast
  then show ?thesis
    using assms by (simp add: split_str_first getitem_def)
qed

lemma payload_piece:
  assumes "CHR '','' \<in> set s"
  shows "getitem (split_str CHR '','' s) (Suc 0) = Inr (until_comma (after_first_comma s))"
proof -
  obtain pre rest where s: "s = pre @ CHR '','' # rest" and pre: "CHR '','' \<notin> set pre"
    using assms by (blast dest: split_list_first)
  have "dropWhile (\<lambda>c. c \<noteq> CHR '','') s = CHR '','' # rest"
    using pre by (auto simp: s dropWhile_append3)
  then have "after_first_comma s = rest"
    by (simp add: after_first_comma_def)
  then show ?thesis
    using getitem_second_piece [OF pre, of rest] by (simp add: s until_comma_def)
qed

lemma comma_nonempty: "CHR '','' \<in> set s \<Longrightarrow> s \<noteq> []"
  by auto

lemma captured_image_path_eq: "captured_image_path = ''uploaded_images/captured_image.jpg''"
  by (simp add: captured_image_path_def os_path_join_def UPLOAD_FOLDER_def)



lemma unreserved_is_field: "\<not> reserved_name n \<Longrightarrow> name_kind_of e n = FieldName"
  by (simp add: name_kind_of_def)

lemma first_rejected_fields:
  "\<forall>n \<in> fst ` set ds. name_kind_of e n = FieldName \<Longrightarrow> first_rejected e ds = None"
  by (induction ds) auto

lemma create_model_fields:
  assumes "\<forall>n \<in> fst ` set ds. name_kind_of e n = FieldName"
  shows "create_model e name ds = Inr (PydModel name ds)"
proof -
  have "filter (\<lambda>(n, d). name_kind_of e n = FieldName) ds = ds"
    using assms by (induction ds) auto
  then show ?thesis
    using assms by (simp add: create_model_def first_rejected_fields)
qed

lemma handler_schemas:
  "create_dynamic_listing_model e listing_fields = Inr listing_schema"
  "create_listings_container_model e listing_schema = Inr container_schema"
  by (simp_all add: create_dynamic_listing_model_def create_listings_container_model_def
      create_model_fields unreserved_is_field reserved_name_def listing_fields_def
      listing_schema_def container_schema_def)

lemma index_missing:
  assumes "map_of kvs ''image'' = None \<or> map_of kvs ''image'' = Some JNull"
  shows "index e \<lparr>req_method = POST, req_json = JObject kvs\<rparr> w =
           (Inr (JsonResponse 400 (JObject [(''error'', JString ''No image data provided'')])), w)"
  using assms by (auto simp: index_def)

lemma index_no_comma:
  assumes "map_of kvs ''image'' = Some (JString s)" "s \<noteq> []" "CHR '','' \<notin> set s"
  shows "index e \<lparr>req_method = POST, req_json = JObject kvs\<rparr> w = (Inl IndexError, w)"
  using assms by (simp add: index_def split_str_no_sep getitem_def)

lemma index_no_text:
  assumes "map_of kvs ''image'' = Some (JString s)"
    and "CHR '','' \<in> set s"
    and "b64decode e (until_comma (after_first_comma s)) = Inr image_data"
    and "readtext e default_lang_list image_data = Inr F"
    and "join_str '' '' (extracted_texts F default_confidence_threshold) = []"
  shows "index e \<lparr>req_method = POST, req_json = JObject kvs\<rparr> w =
           (Inr (JsonResponse 400 (JObject [(''error'', JString ''No text extracted from the image'')])),
            w\<lparr>files := (files w)(captured_image_path \<mapsto> image_data),
              trace := trace w @ [FileWrite captured_image_path image_data,
                                  OcrCall default_lang_list captured_image_path]\<rparr>)"
  using assms
  by (simp add: index_def payload_piece comma_nonempty process_image_def write_file_def emit_def Let_def)

lemma gemini_generate_response_eq:
  "gemini_generate_response e prompt m w =
     (Inr (case gemini_try_block e prompt m of Inl err \<Rightarrow> None | Inr r \<Rightarrow> r),
      emit (GeminiCall prompt m) w)"
  by (simp add: gemini_generate_response_def Let_def split: sum.splits)

lemma index_success:
  assumes "map_of kvs ''image'' = Some (JString s)"
    and "CHR '','' \<in> set s"
    and "b64decode e (until_comma (after_first_comma s)) = Inr image_data"
    and "readtext e default_lang_list image_data = Inr F"
    and "join_str '' '' (extracted_texts F default_confidence_threshold) = extracted_text"
    and "extracted_text \<noteq> []"
    and "prompt = system_message @ extracted_text"
  shows "index e \<lparr>req_method = POST, req_json = JObject kvs\<rparr> w =
           (Inr (JsonResponse 200
                   (JObject [(''extracted_text'', JString extracted_text),
                             (''gemini_response'',
                              json_of_optional
                                (case gemini_try_block e prompt container_schema of
                                   Inl err \<Rightarrow> None | Inr r \<Rightarrow> r))])),
            w\<lparr>files := (files w)(captured_image_path := None),
              trace := trace w @ [FileWrite captured_image_path image_data,
                                  OcrCall default_lang_list captured_image_path,
                                  GeminiCall prompt container_schema,
                                  FileRemove captured_image_path]\<rparr>)"
  using assms
  by (simp add: index_def payload_piece comma_nonempty process_image_def write_file_def emit_def Let_def
      gemini_generate_response_eq os_remove_def handler_schemas)



lemma update_same_value:
  "k \<in> fst ` set al \<Longrightarrow> snd ` set al \<subseteq> {v} \<Longrightarrow> AList.update k v al = al"
  by (induction al) auto

lemma update_fresh: "k \<notin> fst ` set al \<Longrightarrow> AList.update k v al = al @ [(k, v)]"
  by (induction al) auto

lemma foldl_update_keys:
  "set (map fst (foldl (\<lambda>d field. AList.update field v d) acc ns)) = set (map fst acc) \<union> set ns"
  by (induction ns arbitrary: acc) (auto simp: AList.dom_update)

lemma foldl_update_distinct:
  "distinct (map fst acc) \<Longrightarrow> distinct (map fst (foldl (\<lambda>d field. AList.update field v d) acc ns))"
  by (induction ns arbitrary: acc) (auto simp: AList.distinct_update)

lemma foldl_update_values:
  "snd ` set acc \<subseteq> {v} \<Longrightarrow> snd ` set (foldl (\<lambda>d field. AList.update field v d) acc ns) \<subseteq> {v}"
proof (induction ns arbitrary: acc)
  case Nil
  then show ?case by simp
next
  case (Cons n ns)
  have "snd ` set (AList.update n v acc) \<subseteq> {v}"
  proof (cases "n \<in> fst ` set acc")
    case True
    then show ?thesis using Cons.prems by (simp add: update_same_value)
  next
    case False
    then show ?thesis using Cons.prems by (simp add: update_fresh)
  qed
  then show ?case using Cons.IH by simp
qed

lemma foldl_update_fresh:
  "distinct ns \<Longrightarrow> set ns \<inter> fst ` set acc = {} \<Longrightarrow>
   foldl (\<lambda>d field. AList.update field v d) acc ns = acc @ map (\<lambda>n. (n, v)) ns"
proof (induction ns arbitrary: acc)
  case Nil
  then show ?case by simp
next
  case (Cons n ns)
  have fresh: "n \<notin> fst ` set acc" using Cons.prems by auto
  have "set ns \<inter> fst ` set (acc @ [(n, v)]) = {}" using Cons.prems by auto
  with Cons fresh show ?case by (simp add: update_fresh)
qed

lemma all_snd_replicate: "snd ` set xs \<subseteq> {v} \<Longrightarrow> map snd xs = replicate (length xs) v"
  by (induction xs) auto

lemma gemini_try_block_eq:
  "(case gemini_try_block e prompt m of Inl err \<Rightarrow> None | Inr r \<Rightarrow> r) =
     (case generate_content e prompt m of
        Inl err \<Rightarrow> None
      | Inr None \<Rightarrow> None
      | Inr (Some response) \<Rightarrow>
          (case candidates response of
             [] \<Rightarrow> None
           | c # cs \<Rightarrow> (case parts (content c) of [] \<Rightarrow> None | p # ps \<Rightarrow> Some (part_text p))))"
  by (simp add: gemini_try_block_def getitem_def split: sum.splits option.splits list.splits)


lemma retained_empty_no_text:
  "retained F t = [] \<Longrightarrow> join_str '' '' (extracted_texts F t) = []"
  by (simp add: extracted_texts_retained)

lemma example_fragments_retained:
  "retained example_fragments default_confidence_threshold =
     [([(0, 0), (40, 0), (40, 12), (0, 12)], ''NPK'', Finite (7 / 8)),
      ([(50, 0), (120, 0), (120, 12), (50, 12)], ''Fertilizer'', Finite (3 / 4))]"
  by (simp add: retained_def example_fragments_def default_confidence_threshold_def frag_conf_def)

lemma example_text:
  "join_str '' '' (extracted_texts example_fragments default_confidence_threshold) = ''NPK Fertilizer''"
  by (simp add: extracted_texts_retained example_fragments_retained frag_text_def)

lemma noise_text:
  "join_str '' '' (extracted_texts [([], ''noise'', Finite (1 / 4))] default_confidence_threshold) = []"
  by (simp add: extracted_texts_def default_confidence_threshold_def)

lemma payload_SGk:
  "CHR '','' \<in> set ''data:image/jpeg;base64,SGk=''"
  "until_comma (after_first_comma ''data:image/jpeg;base64,SGk='') = ''SGk=''"
  by (simp_all add: until_comma_def after_first_comma_def)

lemma payload_AAAA:
  "CHR '','' \<in> set ''data:image/jpeg;base64,AAAA''"
  "until_comma (after_first_comma ''data:image/jpeg;base64,AAAA'') = ''AAAA''"
  by (simp_all add: until_comma_def after_first_comma_def)

lemma post_image_lookup: "map_of [(''image'', JString s)] ''image'' = Some (JString s)"
  by simp





section \<open>Properties of the text extraction\<close>

text \<open>
  C1. When the OCR engine returns the fragments \<open>F\<close> for the stored image,
  \<open>process_image\<close> returns the texts of exactly the fragments of \<open>F\<close> whose
  confidence is at least the threshold \<open>t\<close>, in the order of \<open>F\<close>, joined by
  single spaces. The fragments below \<open>t\<close> are not in the retained list, so
  they contribute nothing.
\<close>

theorem process_image_extracts:
  assumes "files w image_path = Some image_bytes"
    and "readtext e lang_list image_bytes = Inr F"
  shows "fst (process_image e image_path lang_list t w) =
           Inr (space_joined (map frag_text (retained F t)))
         \<and> subseq (retained F t) F
         \<and> (\<forall>f. f \<in> set (retained F t) \<longleftrightarrow> f \<in> set F \<and> float_ge (frag_conf f) t)"
proof -
  have "fst (process_image e image_path lang_list t w) = Inr (join_str '' '' (extracted_texts F t))"
    using assms by (simp add: process_image_ok)
  moreover have "subseq (retained F t) F"
    by (simp add: retained_def)
  moreover have "\<forall>f. f \<in> set (retained F t) \<longleftrightarrow> f \<in> set F \<and> float_ge (frag_conf f) t"
    by (simp add: retained_def)
  ultimately show ?thesis
    by (simp add: extracted_texts_retained join_str_space_joined)
qed

theorem process_image_extracts_witness:
  "fst (process_image example_env ''label.jpg'' [''en''] (Finite (1 / 2))
          \<lparr>files = [''label.jpg'' \<mapsto> [72, 105]], trace = []\<rparr>) = Inr ''NPK Fertilizer''
   \<and> fst (process_image example_env ''label.jpg'' [''en''] (Finite (4 / 5))
          \<lparr>files = [''label.jpg'' \<mapsto> [72, 105]], trace = []\<rparr>) = Inr ''NPK''"
proof -
  let ?w = "\<lparr>files = [''label.jpg'' \<mapsto> [72 :: byte, 105]], trace = []\<rparr>"
  have f: "files ?w ''label.jpg'' = Some [72, 105]"
    by simp
  have r: "readtext example_env [''en''] [72, 105] = Inr example_fragments"
    by (simp add: example_env_def)
  show ?thesis
    using process_image_extracts [OF f r, of "Finite (1 / 2)"]
          process_image_extracts [OF f r, of "Finite (4 / 5)"]
    by (simp add: retained_def example_fragments_def frag_conf_def frag_text_def space_joined_def)
qed

text \<open>
  C6. Raising the confidence threshold is monotone: when \<open>t1 \<le> t2\<close>, every
  fragment retained at \<open>t2\<close> is retained at \<open>t1\<close>, and the texts extracted at
  \<open>t2\<close> are a subsequence of the texts extracted at \<open>t1\<close>.
\<close>

theorem threshold_monotone:
  assumes "float_le t1 t2"
  shows "set (retained F t2) \<subseteq> set (retained F t1)
         \<and> subseq (extracted_texts F t2) (extracted_texts F t1)"
proof -
  have imp: "float_ge c t2 \<Longrightarrow> float_ge c t1" for c
    using assms float_ge_trans [of c t2 t1] by (simp add: float_le_def)
  have "retained F t2 = filter (\<lambda>f. float_ge (frag_conf f) t2) (retained F t1)"
    by (auto simp: retained_def intro: filter_cong dest: imp)
  then have sub: "subseq (retained F t2) (retained F t1)"
    by (metis subseq_filter_left)
  have "set (retained F t2) \<subseteq> set (retained F t1)"
    by (auto simp: retained_def dest: imp)
  moreover have "subseq (extracted_texts F t2) (extracted_texts F t1)"
    using sub by (simp add: extracted_texts_retained subseq_map)
  ultimately show ?thesis by simp
qed

theorem threshold_monotone_witness:
  "float_le (Finite (1 / 2)) (Finite (4 / 5))
   \<and> extracted_texts example_fragments (Finite (4 / 5)) = [''NPK'']
   \<and> extracted_texts example_fragments (Finite (1 / 2)) = [''NPK'', ''Fertilizer'']
   \<and> subseq (extracted_texts example_fragments (Finite (4 / 5)))
             (extracted_texts example_fragments (Finite (1 / 2)))"
proof -
  have h: "float_le (Finite (1 / 2)) (Finite (4 / 5))"
    by (simp add: float_le_def)
  have "extracted_texts example_fragments (Finite (4 / 5)) = [''NPK'']"
    by (simp add: extracted_texts_def example_fragments_def)
  moreover have "extracted_texts example_fragments (Finite (1 / 2)) = [''NPK'', ''Fertilizer'']"
    by (simp add: extracted_texts_def example_fragments_def)
  ultimately show ?thesis
    using h threshold_monotone [OF h, of example_fragments] by simp
qed


section \<open>Properties of the schema builder\<close>

text \<open>
  C5 as the specification states it fails for a name that pydantic reserves.
  Where a leading underscore makes a private attribute, the record schema built
  from the one name \<open>_hidden\<close> has no field at all; where \<open>model_config\<close> is
  rejected, no schema is built from it.
\<close>

theorem schema_builder_reserved_counterexample:
  "create_dynamic_listing_model example_env [''_hidden''] = Inr (PydModel ''DynamicListingModel'' [])
   \<and> create_dynamic_listing_model example_env [''model_config''] = Inl TypeError"
  by (simp add: create_dynamic_listing_model_def create_model_def name_kind_of_def
      reserved_name_def example_env_def)

text \<open>
  C5, amended. For every sequence of field names (the empty one included) each
  of which pydantic takes as a field name, as it does every name that is not
  reserved, \<open>create_dynamic_listing_model\<close> produces a record schema whose
  field names are distinct and are exactly the given names, every field being a
  required string; when the given names are distinct the fields are the names
  in the given order. \<open>create_listings_container_model\<close> then produces a
  container schema with the single required field \<open>listings\<close>, a list of the
  record schema.
\<close>

theorem schema_builder_fields:
  assumes "\<forall>n \<in> set ns. \<not> reserved_name n \<or> name_kind_of e n = FieldName"
  shows "\<exists>M. create_dynamic_listing_model e ns = Inr M
           \<and> model_name M = ''DynamicListingModel''
           \<and> distinct (map fst (model_fields M))
           \<and> set (map fst (model_fields M)) = set ns
           \<and> map snd (model_fields M) = replicate (length (model_fields M)) (TStr, Required)
           \<and> (distinct ns \<longrightarrow> model_fields M = map (\<lambda>n. (n, TStr, Required)) ns)
           \<and> create_listings_container_model e M =
               Inr (PydModel ''DynamicListingsContainer'' [(''listings'', TList M, Required)])"
proof -
  let ?d = "foldl (\<lambda>d field. AList.update field (TStr, Required) d) [] ns"
  let ?M = "PydModel ''DynamicListingModel'' ?d"
  have keys: "set (map fst ?d) = set ns"
    by (simp only: foldl_update_keys) simp
  have "\<forall>n \<in> set ns. name_kind_of e n = FieldName"
    using assms by (auto simp: unreserved_is_field)
  then have "\<forall>n \<in> fst ` set ?d. name_kind_of e n = FieldName"
    using keys by simp
  then have built: "create_dynamic_listing_model e ns = Inr ?M"
    by (simp add: create_dynamic_listing_model_def create_model_fields)
  have "distinct (map fst ?d)"
    by (rule foldl_update_distinct) simp
  moreover have "snd ` set ?d \<subseteq> {(TStr, Required)}"
    by (rule foldl_update_values) simp
  then have "map snd ?d = replicate (length ?d) (TStr, Required)"
    by (rule all_snd_replicate)
  moreover have "distinct ns \<longrightarrow> ?d = map (\<lambda>n. (n, TStr, Required)) ns"
    using foldl_update_fresh [of ns "[]" "(TStr, Required)"] by simp
  moreover have "create_listings_container_model e ?M =
                   Inr (PydModel ''DynamicListingsContainer'' [(''listings'', TList ?M, Required)])"
    by (simp add: create_listings_container_model_def create_model_fields unreserved_is_field
        reserved_name_def)
  ultimately show ?thesis
    using built keys by simp
qed

theorem schema_builder_fields_witness:
  "create_dynamic_listing_model example_env [''Product Name'', ''Description'', ''Usage Instructions''] =
     Inr (PydModel ''DynamicListingModel''
            [(''Product Name'', TStr, Required), (''Description'', TStr, Required),
             (''Usage Instructions'', TStr, Required)])
   \<and> create_listings_container_model example_env listing_schema =
       Inr (PydModel ''DynamicListingsContainer'' [(''listings'', TList listing_schema, Required)])"
proof -
  let ?ns = "[''Product Name'', ''Description'', ''Usage Instructions'']"
  have a: "\<forall>n \<in> set ?ns. \<not> reserved_name n \<or> name_kind_of example_env n = FieldName"
    by (simp add: reserved_name_def)
  have d: "distinct ?ns"
    by simp
  obtain M where M: "create_dynamic_listing_model example_env ?ns = Inr M"
    and name: "model_name M = ''DynamicListingModel''"
    and fields: "distinct ?ns \<longrightarrow> model_fields M = map (\<lambda>n. (n, TStr, Required)) ?ns"
    and cont: "create_listings_container_model example_env M =
                 Inr (PydModel ''DynamicListingsContainer'' [(''listings'', TList M, Required)])"
    using schema_builder_fields [OF a] by blast
  have "M = listing_schema"
    using name fields d by (cases M) (simp add: listing_schema_def)
  then show ?thesis
    using M cont by (simp add: listing_schema_def)
qed

section \<open>Properties of the generative query adapter\<close>

text \<open>
  C9. \<open>gemini_generate_response\<close> never propagates an exception: for every
  prompt and schema it returns a value. The value is \<open>None\<close> when the call of
  the hosted model raises, when the response is empty, has no candidate, or
  its first candidate has no content part; otherwise it is the text of the
  first content part of the first candidate.
\<close>

theorem gemini_never_raises:
  "fst (gemini_generate_response e prompt m w) =
     Inr (case generate_content e prompt m of
            Inl err \<Rightarrow> None
          | Inr None \<Rightarrow> None
          | Inr (Some response) \<Rightarrow>
              (case candidates response of
                 [] \<Rightarrow> None
               | c # cs \<Rightarrow> (case parts (content c) of [] \<Rightarrow> None | p # ps \<Rightarrow> Some (part_text p))))"
  by (simp only: gemini_generate_response_eq gemini_try_block_eq fst_conv)

theorem gemini_never_raises_witness:
  "fst (gemini_generate_response failing_env ''prompt'' (PydModel ''M'' []) initial_world) = Inr None
   \<and> fst (gemini_generate_response silent_env ''prompt'' (PydModel ''M'' []) initial_world) = Inr None
   \<and> fst (gemini_generate_response example_env ''prompt'' (PydModel ''M'' []) initial_world) = Inr (Some ''{}'')"
  using gemini_never_raises [of failing_env "''prompt''" "PydModel ''M'' []" initial_world]
        gemini_never_raises [of silent_env "''prompt''" "PydModel ''M'' []" initial_world]
        gemini_never_raises [of example_env "''prompt''" "PydModel ''M'' []" initial_world]
  by (simp add: failing_env_def silent_env_def example_env_def)

section \<open>Properties of the request orchestrator\<close>

text \<open>
  C2. A POST request whose JSON object has no \<open>image\<close> key, or has the value
  null under it, is answered with HTTP 400 and the body
  whose \<open>error\<close> field is \<open>No image data provided\<close>, and the world is left as it was: no
  file is created or changed and nothing is written.
\<close>

theorem missing_image_is_400:
  assumes "map_of kvs ''image'' = None \<or> map_of kvs ''image'' = Some JNull"
  shows "index e \<lparr>req_method = POST, req_json = JObject kvs\<rparr> w =
           (Inr (JsonResponse 400 (JObject [(''error'', JString ''No image data provided'')])), w)"
  using assms by (rule index_missing)

theorem missing_image_is_400_witness:
  "index example_env \<lparr>req_method = POST, req_json = JObject []\<rparr> initial_world =
     (Inr (JsonResponse 400 (JObject [(''error'', JString ''No image data provided'')])), initial_world)
   \<and> index example_env \<lparr>req_method = POST, req_json = JObject [(''image'', JNull)]\<rparr> initial_world =
     (Inr (JsonResponse 400 (JObject [(''error'', JString ''No image data provided'')])), initial_world)"
  using missing_image_is_400 [of "[]" example_env initial_world]
        missing_image_is_400 [of "[(''image'', JNull)]" example_env initial_world]
  by simp

text \<open>
  C10. A POST request whose \<open>image\<close> is a non-empty string without a comma
  makes the handler raise \<open>IndexError\<close> at \<open>data_url.split(',')[1]\<close>; nothing
  catches it, so the handler returns no response, neither a 400 body nor a 200.
  Hence the handler returns a response for a non-empty string only if the
  string contains a comma.
\<close>

theorem no_comma_raises_IndexError:
  assumes "map_of kvs ''image'' = Some (JString s)"
    and "s \<noteq> []"
    and "CHR '','' \<notin> set s"
  shows "index e \<lparr>req_method = POST, req_json = JObject kvs\<rparr> w = (Inl IndexError, w)"
  using assms by (rule index_no_comma)

theorem no_comma_raises_IndexError_witness:
  "index example_env \<lparr>req_method = POST, req_json = JObject [(''image'', JString ''SGk='')]\<rparr>
     initial_world = (Inl IndexError, initial_world)"
  using no_comma_raises_IndexError [of "[(''image'', JString ''SGk='')]" "''SGk=''" example_env initial_world]
  by simp


text \<open>
  C3. When the image is decoded and stored and the OCR engine returns the
  fragments \<open>F\<close>, let \<open>extracted_text\<close> be the text extracted from \<open>F\<close> at the
  default threshold. It is empty when no fragment is at or above the
  threshold. When it is empty, the handler answers HTTP 400 with the body whose
  \<open>error\<close> field is \<open>No text extracted from the image\<close>, having written the
  image and called the OCR engine and nothing else: the generative adapter is
  not called.
\<close>

theorem no_text_is_400:
  assumes "map_of kvs ''image'' = Some (JString s)"
    and "CHR '','' \<in> set s"
    and "b64decode e (until_comma (after_first_comma s)) = Inr image_data"
    and "readtext e default_lang_list image_data = Inr F"
    and "extracted_text = join_str '' '' (extracted_texts F default_confidence_threshold)"
  shows "(retained F default_confidence_threshold = [] \<longrightarrow> extracted_text = [])
       \<and> (extracted_text = [] \<longrightarrow>
            index e \<lparr>req_method = POST, req_json = JObject kvs\<rparr> w =
              (Inr (JsonResponse 400 (JObject [(''error'', JString ''No text extracted from the image'')])),
               w\<lparr>files := (files w)(captured_image_path \<mapsto> image_data),
                 trace := trace w @ [FileWrite captured_image_path image_data,
                                     OcrCall default_lang_list captured_image_path]\<rparr>)
            \<and> gemini_calls (snd (index e \<lparr>req_method = POST, req_json = JObject kvs\<rparr> w)) =
                gemini_calls w)"
proof (intro conjI impI)
  assume "retained F default_confidence_threshold = []"
  then show "extracted_text = []"
    using assms(5) by (simp add: retained_empty_no_text)
next
  assume "extracted_text = []"
  then have "join_str '' '' (extracted_texts F default_confidence_threshold) = []"
    using assms(5) by simp
  note r = index_no_text [OF assms(1-4) this, of w]
  show "index e \<lparr>req_method = POST, req_json = JObject kvs\<rparr> w =
          (Inr (JsonResponse 400 (JObject [(''error'', JString ''No text extracted from the image'')])),
           w\<lparr>files := (files w)(captured_image_path \<mapsto> image_data),
             trace := trace w @ [FileWrite captured_image_path image_data,
                                 OcrCall default_lang_list captured_image_path]\<rparr>)"
    by (rule r)
  show "gemini_calls (snd (index e \<lparr>req_method = POST, req_json = JObject kvs\<rparr> w)) = gemini_calls w"
    by (simp add: r gemini_calls_def)
qed

theorem no_text_is_400_witness:
  "index example_env (post_image ''data:image/jpeg;base64,AAAA'') initial_world =
     (Inr (JsonResponse 400 (JObject [(''error'', JString ''No text extracted from the image'')])),
      \<lparr>files = [''uploaded_images/captured_image.jpg'' \<mapsto> [0, 0, 0]],
       trace = [FileWrite ''uploaded_images/captured_image.jpg'' [0, 0, 0],
                OcrCall [''en'', ''te''] ''uploaded_images/captured_image.jpg'']\<rparr>)
   \<and> gemini_calls (snd (index example_env (post_image ''data:image/jpeg;base64,AAAA'') initial_world)) = []"
proof -
  have c: "b64decode example_env (until_comma (after_first_comma ''data:image/jpeg;base64,AAAA'')) =
             Inr [0, 0, 0]"
    by (simp add: payload_AAAA example_env_def)
  have d: "readtext example_env default_lang_list [0, 0, 0] = Inr [([], ''noise'', Finite (1 / 4))]"
    by (simp add: example_env_def)
  show ?thesis
    using no_text_is_400 [OF post_image_lookup payload_AAAA(1) c d refl, of initial_world]
    by (simp add: noise_text post_image_def initial_world_def captured_image_path_eq
        default_lang_list_def gemini_calls_def)
qed

text \<open>
  C4. When a request reaches the generative step (the image is decoded and
  stored, and the extracted text is not empty) and the call of the hosted model
  raises, or returns nothing, or a response without a candidate, or one whose
  first candidate has no content part, the handler still answers HTTP 200, with
  \<open>extracted_text\<close> equal to the OCR text and \<open>gemini_response\<close> null.
\<close>

theorem generation_failure_is_200:
  assumes "map_of kvs ''image'' = Some (JString s)"
    and "CHR '','' \<in> set s"
    and "b64decode e (until_comma (after_first_comma s)) = Inr image_data"
    and "readtext e default_lang_list image_data = Inr F"
    and "join_str '' '' (extracted_texts F default_confidence_threshold) = extracted_text"
    and "extracted_text \<noteq> []"
    and "generate_content e (system_message @ extracted_text) container_schema = g"
    and "(\<exists>err. g = Inl err) \<or> g = Inr None
         \<or> (\<exists>r. g = Inr (Some r) \<and> (candidates r = [] \<or> parts (content (hd (candidates r))) = []))"
  shows "fst (index e \<lparr>req_method = POST, req_json = JObject kvs\<rparr> w) =
           Inr (JsonResponse 200
                  (JObject [(''extracted_text'', JString extracted_text),
                            (''gemini_response'', JNull)]))"
proof -
  let ?prompt = "system_message @ extracted_text"
  let ?model = container_schema
  have "(case gemini_try_block e ?prompt ?model of Inl err \<Rightarrow> None | Inr r \<Rightarrow> r) = None"
    using assms(7,8) by (auto simp: gemini_try_block_eq split: list.splits)
  then show ?thesis
    using index_success [OF assms(1-6) refl, of w] by (simp add: json_of_optional_def)
qed

theorem generation_failure_is_200_witness:
  "fst (index failing_env (post_image ''data:image/jpeg;base64,SGk='') initial_world) =
     Inr (JsonResponse 200
            (JObject [(''extracted_text'', JString ''NPK Fertilizer''), (''gemini_response'', JNull)]))
   \<and> fst (index silent_env (post_image ''data:image/jpeg;base64,SGk='') initial_world) =
     Inr (JsonResponse 200
            (JObject [(''extracted_text'', JString ''NPK Fertilizer''), (''gemini_response'', JNull)]))"
proof -
  let ?prompt = "system_message @ ''NPK Fertilizer''"
  let ?model = container_schema
  let ?raised = "Inl (LibraryError ''quota exceeded'') :: py_error + gen_response option"
  let ?empty = "Inr (Some (GenResponse [])) :: py_error + gen_response option"
  have c1: "b64decode failing_env (until_comma (after_first_comma ''data:image/jpeg;base64,SGk='')) =
              Inr [72, 105]"
    by (simp add: payload_SGk failing_env_def example_env_def)
  have d1: "readtext failing_env default_lang_list [72, 105] = Inr example_fragments"
    by (simp add: failing_env_def example_env_def)
  have g1: "generate_content failing_env ?prompt ?model = ?raised"
    by (simp add: failing_env_def)
  have h1: "(\<exists>err. ?raised = Inl err) \<or> ?raised = Inr None
            \<or> (\<exists>r. ?raised = Inr (Some r) \<and> (candidates r = [] \<or> parts (content (hd (candidates r))) = []))"
    by simp
  have c2: "b64decode silent_env (until_comma (after_first_comma ''data:image/jpeg;base64,SGk='')) =
              Inr [72, 105]"
    by (simp add: payload_SGk silent_env_def example_env_def)
  have d2: "readtext silent_env default_lang_list [72, 105] = Inr example_fragments"
    by (simp add: silent_env_def example_env_def)
  have g2: "generate_content silent_env ?prompt ?model = ?empty"
    by (simp add: silent_env_def)
  have h2: "(\<exists>err. ?empty = Inl err) \<or> ?empty = Inr None
            \<or> (\<exists>r. ?empty = Inr (Some r) \<and> (candidates r = [] \<or> parts (content (hd (candidates r))) = []))"
    by simp
  have ne: "''NPK Fertilizer'' \<noteq> []"
    by simp
  show ?thesis
    using generation_failure_is_200
            [OF post_image_lookup payload_SGk(1) c1 d1 example_text ne g1 h1, of initial_world]
          generation_failure_is_200
            [OF post_image_lookup payload_SGk(1) c2 d2 example_text ne g2 h2, of initial_world]
    by (simp add: post_image_def)
qed

text \<open>
  C8. When the image is decoded and stored and the OCR engine returns
  fragments: if the extracted text is not empty, the handler answers HTTP 200
  and the stored image is gone, removed after the call of the generative
  adapter as the last thing the handler does; if the extracted text is empty,
  the handler answers HTTP 400 and the stored image is still there, holding the
  decoded bytes, and nothing was removed.
\<close>

theorem cleanup_on_success_only:
  assumes "map_of kvs ''image'' = Some (JString s)"
    and "CHR '','' \<in> set s"
    and "b64decode e (until_comma (after_first_comma s)) = Inr image_data"
    and "readtext e default_lang_list image_data = Inr F"
    and "join_str '' '' (extracted_texts F default_confidence_threshold) = extracted_text"
    and "r = index e \<lparr>req_method = POST, req_json = JObject kvs\<rparr> w"
  shows "(extracted_text \<noteq> [] \<longrightarrow>
            (\<exists>body. fst r = Inr (JsonResponse 200 body))
            \<and> files (snd r) captured_image_path = None
            \<and> trace (snd r) =
                trace w @ [FileWrite captured_image_path image_data,
                           OcrCall default_lang_list captured_image_path,
                           GeminiCall (system_message @ extracted_text) container_schema,
                           FileRemove captured_image_path])
       \<and> (extracted_text = [] \<longrightarrow>
            fst r = Inr (JsonResponse 400
                           (JObject [(''error'', JString ''No text extracted from the image'')]))
            \<and> files (snd r) captured_image_path = Some image_data
            \<and> trace (snd r) =
                trace w @ [FileWrite captured_image_path image_data,
                           OcrCall default_lang_list captured_image_path])"
proof (intro conjI impI)
  assume ne: "extracted_text \<noteq> []"
  note s = index_success [OF assms(1-5) ne refl, of w]
  show "\<exists>body. fst r = Inr (JsonResponse 200 body)"
    by (simp add: assms(6) s)
  show "files (snd r) captured_image_path = None"
    by (simp add: assms(6) s)
  show "trace (snd r) =
          trace w @ [FileWrite captured_image_path image_data,
                     OcrCall default_lang_list captured_image_path,
                     GeminiCall (system_message @ extracted_text) container_schema,
                     FileRemove captured_image_path]"
    by (simp add: assms(6) s)
next
  assume "extracted_text = []"
  then have "join_str '' '' (extracted_texts F default_confidence_threshold) = []"
    using assms(5) by simp
  note n = index_no_text [OF assms(1-4) this, of w]
  show "fst r = Inr (JsonResponse 400 (JObject [(''error'', JString ''No text extracted from the image'')]))"
    by (simp add: assms(6) n)
  show "files (snd r) captured_image_path = Some image_data"
    by (simp add: assms(6) n)
  show "trace (snd r) =
          trace w @ [FileWrite captured_image_path image_data,
                     OcrCall default_lang_list captured_image_path]"
    by (simp add: assms(6) n)
qed

theorem cleanup_on_success_only_witness:
  "files (snd (index example_env (post_image ''data:image/jpeg;base64,SGk='') initial_world))
        ''uploaded_images/captured_image.jpg'' = None
   \<and> trace (snd (index example_env (post_image ''data:image/jpeg;base64,SGk='') initial_world)) =
       [FileWrite ''uploaded_images/captured_image.jpg'' [72, 105],
        OcrCall [''en'', ''te''] ''uploaded_images/captured_image.jpg'',
        GeminiCall (system_message @ ''NPK Fertilizer'') container_schema,
        FileRemove ''uploaded_images/captured_image.jpg'']
   \<and> fst (index example_env (post_image ''data:image/jpeg;base64,AAAA'') initial_world) =
     Inr (JsonResponse 400 (JObject [(''error'', JString ''No text extracted from the image'')]))
   \<and> files (snd (index example_env (post_image ''data:image/jpeg;base64,AAAA'') initial_world))
        ''uploaded_images/captured_image.jpg'' = Some [0, 0, 0]"
proof -
  have c1: "b64decode example_env (until_comma (after_first_comma ''data:image/jpeg;base64,SGk='')) =
              Inr [72, 105]"
    by (simp add: payload_SGk example_env_def)
  have d1: "readtext example_env default_lang_list [72, 105] = Inr example_fragments"
    by (simp add: example_env_def)
  have c2: "b64decode example_env (until_comma (after_first_comma ''data:image/jpeg;base64,AAAA'')) =
              Inr [0, 0, 0]"
    by (simp add: payload_AAAA example_env_def)
  have d2: "readtext example_env default_lang_list [0, 0, 0] = Inr [([], ''noise'', Finite (1 / 4))]"
    by (simp add: example_env_def)
  show ?thesis
    using cleanup_on_success_only
            [OF post_image_lookup payload_SGk(1) c1 d1 example_text refl, of initial_world]
          cleanup_on_success_only
            [OF post_image_lookup payload_AAAA(1) c2 d2 noise_text refl, of initial_world]
    by (simp add: post_image_def captured_image_path_eq default_lang_list_def initial_world_def)
qed



end
